theory Spec2Isabelle
  imports Complex_Main
begin

section \<open>Receipt field extraction: \<open>backend/services/ocr_service.py\<close>\<close>

subsection \<open>Strings, exceptions and the result mapping\<close>

text \<open>
  A Python \<open>str\<close> is a sequence of Unicode code points, so a text is a list of code
  points (\<open>len\<close> is \<open>length\<close>). \<open>u\<close> writes an ASCII literal as such a text.
\<close>

type_synonym ustr = "nat list"

definition u :: "string \<Rightarrow> ustr" where
  "u s = map of_char s"

text \<open>
  \<open>str.isspace\<close> for one code point (the set that \<open>str.strip()\<close> and the regular
  expression class \<open>\s\<close> use): the ASCII controls 9-13 and 28-31, the space, and the
  Unicode separators.
\<close>

definition is_space :: "nat \<Rightarrow> bool" where
  "is_space c \<longleftrightarrow> (9 \<le> c \<and> c \<le> 13) \<or> (28 \<le> c \<and> c \<le> 32) \<or> c = 133 \<or> c = 160
     \<or> c = 5760 \<or> (8192 \<le> c \<and> c \<le> 8202) \<or> c = 8232 \<or> c = 8233 \<or> c = 8239
     \<or> c = 8287 \<or> c = 12288"

text \<open>\<open>str.strip()\<close>: drop the leading and the trailing whitespace.\<close>

definition lstrip :: "ustr \<Rightarrow> ustr" where
  "lstrip s = dropWhile is_space s"

definition rstrip :: "ustr \<Rightarrow> ustr" where
  "rstrip s = rev (dropWhile is_space (rev s))"

definition strip :: "ustr \<Rightarrow> ustr" where
  "strip s = rstrip (lstrip s)"

text \<open>A raised exception, carrying \<open>str(e)\<close>; a computation that may raise returns a sum.\<close>

datatype exn = Exn ustr

fun bindE :: "exn + 'a \<Rightarrow> ('a \<Rightarrow> exn + 'b) \<Rightarrow> exn + 'b" where
  "bindE (Inl e) f = Inl e"
| "bindE (Inr x) f = f x"

text \<open>
  The returned \<open>Dict[str, Optional[str]]\<close>, in insertion order; \<open>None\<close> is the absent
  value.
\<close>

type_synonym result_dict = "(ustr \<times> ustr option) list"

definition result_keys :: "ustr list" where
  "result_keys = [u ''employee'', u ''description'', u ''date'', u ''category'',
     u ''paid_by'', u ''remark'', u ''amount'']"

text \<open>
  \<open>_empty_response\<close>; \<open>today\<close> is \<open>datetime.now().strftime('%Y-%m-%d')\<close> at the
  moment of the call.
\<close>

definition empty_response :: "ustr \<Rightarrow> ustr \<Rightarrow> result_dict" where
  "empty_response today error_message =
     [(u ''employee'', None),
      (u ''description'', if error_message \<noteq> [] then Some error_message else None),
      (u ''date'', Some today),
      (u ''category'', Some (u ''Other'')),
      (u ''paid_by'', Some (u ''Cash'')),
      (u ''remark'', None),
      (u ''amount'', None)]"

subsection \<open>The orchestrator\<close>

text \<open>
  What \<open>extract_expense_details\<close> calls outside the class: the clock, \<open>Image.open\<close> on
  the bytes and \<open>pytesseract.image_to_string\<close>; the last two may raise.
\<close>

record 'img backend =
  today :: ustr
  image_open :: "string \<Rightarrow> exn + 'img"
  image_to_string :: "'img \<Rightarrow> exn + ustr"

text \<open>
  The methods of \<open>self\<close> that \<open>extract_expense_details\<close> calls: \<open>_preprocess_image\<close>
  (which handles its own exceptions) and the seven \<open>_extract_*\<close> of the dictionary
  display, in its order.  Each extractor may raise; category and payment method return
  \<open>str\<close>, the date extractor reads the clock.
\<close>

record 'img service =
  m_preprocess_image :: "'img \<Rightarrow> 'img"
  m_extract_employee :: "ustr \<Rightarrow> exn + ustr option"
  m_extract_description :: "ustr \<Rightarrow> exn + ustr option"
  m_extract_date :: "ustr \<Rightarrow> ustr \<Rightarrow> exn + ustr"
  m_extract_category :: "ustr \<Rightarrow> exn + ustr"
  m_extract_payment_method :: "ustr \<Rightarrow> exn + ustr"
  m_extract_remark :: "ustr \<Rightarrow> exn + ustr option"
  m_extract_amount :: "ustr \<Rightarrow> exn + ustr option"

definition no_text_message :: ustr where
  "no_text_message =
     u ''No text detected in image. Please ensure the receipt is clear and well-lit.''"

text \<open>The dictionary display: the entries are evaluated in order, the first raise ends it.\<close>

definition extracted_data :: "'img service \<Rightarrow> ustr \<Rightarrow> ustr \<Rightarrow> exn + result_dict" where
  "extracted_data ex now full_text =
     bindE (m_extract_employee ex full_text) (\<lambda>employee.
     bindE (m_extract_description ex full_text) (\<lambda>description.
     bindE (m_extract_date ex now full_text) (\<lambda>date.
     bindE (m_extract_category ex full_text) (\<lambda>category.
     bindE (m_extract_payment_method ex full_text) (\<lambda>paid_by.
     bindE (m_extract_remark ex full_text) (\<lambda>remark.
     bindE (m_extract_amount ex full_text) (\<lambda>amount.
       Inr [(u ''employee'', employee),
            (u ''description'', description),
            (u ''date'', Some date),
            (u ''category'', Some category),
            (u ''paid_by'', Some paid_by),
            (u ''remark'', remark),
            (u ''amount'', amount)])))))))"

text \<open>
  For the statements about failing extractors: the exceptions that the seven extractor
  calls raise on a text, listed in the order of the dictionary display.  The head of the
  list, when there is one, is the exception of the first call that raises.
\<close>

fun raised :: "exn + 'a \<Rightarrow> exn list" where
  "raised (Inl e) = [e]"
| "raised (Inr x) = []"

definition raised_in_order :: "'img service \<Rightarrow> ustr \<Rightarrow> ustr \<Rightarrow> exn list" where
  "raised_in_order ex now full_text =
     raised (m_extract_employee ex full_text) @
     raised (m_extract_description ex full_text) @
     raised (m_extract_date ex now full_text) @
     raised (m_extract_category ex full_text) @
     raised (m_extract_payment_method ex full_text) @
     raised (m_extract_remark ex full_text) @
     raised (m_extract_amount ex full_text)"

text \<open>The body of the \<open>try\<close> block of \<open>extract_expense_details\<close>.\<close>

definition try_body :: "'img service \<Rightarrow> 'img backend \<Rightarrow> string \<Rightarrow> exn + result_dict" where
  "try_body ex be image_content =
     bindE (image_open be image_content) (\<lambda>image.
     bindE (image_to_string be (m_preprocess_image ex image)) (\<lambda>full_text.
       if full_text = [] \<or> length (strip full_text) < 10
       then Inr (empty_response (today be) no_text_message)
       else extracted_data ex (today be) full_text))"

text \<open>
  \<open>extract_expense_details\<close>: the \<open>try\<close> block under its single handler
  \<open>except Exception as e\<close>, which returns the empty response with the message
  \<open>OCR processing failed: \<close> followed by \<open>str(e)\<close>.
\<close>

definition extract_expense_details_with ::
    "'img service \<Rightarrow> 'img backend \<Rightarrow> string \<Rightarrow> exn + result_dict" where
  "extract_expense_details_with ex be image_content =
     (case try_body ex be image_content of
        Inr d \<Rightarrow> Inr d
      | Inl (Exn msg) \<Rightarrow> Inr (empty_response (today be) (u ''OCR processing failed: '' @ msg)))"

text \<open>
  Test doubles: a backend whose calls have the given outcomes, and a service whose
  extractors have the given outcomes on every text (the image is not looked at).
\<close>

definition stub_backend :: "ustr \<Rightarrow> exn + unit \<Rightarrow> exn + ustr \<Rightarrow> unit backend" where
  "stub_backend now opened recognized =
     \<lparr>today = now, image_open = (\<lambda>_. opened), image_to_string = (\<lambda>_. recognized)\<rparr>"

definition stub_service ::
    "exn + ustr option \<Rightarrow> exn + ustr option \<Rightarrow> exn + ustr \<Rightarrow> exn + ustr \<Rightarrow> exn + ustr
      \<Rightarrow> exn + ustr option \<Rightarrow> exn + ustr option \<Rightarrow> unit service" where
  "stub_service employee description date category paid_by remark amount =
     \<lparr>m_preprocess_image = (\<lambda>image. image),
      m_extract_employee = (\<lambda>_. employee),
      m_extract_description = (\<lambda>_. description),
      m_extract_date = (\<lambda>_ _. date),
      m_extract_category = (\<lambda>_. category),
      m_extract_payment_method = (\<lambda>_. paid_by),
      m_extract_remark = (\<lambda>_. remark),
      m_extract_amount = (\<lambda>_. amount)\<rparr>"

text \<open>The fixtures of the examples below.\<close>

definition sample_service :: "unit service" where
  "sample_service = stub_service (Inr (Some (u ''John Smith''))) (Inr (Some (u ''Pizza Palace'')))
     (Inr (u ''2024-03-15'')) (Inr (u ''Food'')) (Inr (u ''UPI'')) (Inr None) (Inr (Some (u ''45.67'')))"

definition undecodable_backend :: "unit backend" where
  "undecodable_backend = stub_backend (u ''2026-11-04'') (Inl (Exn (u ''cannot identify image file'')))
     (Inr (u ''Pizza Palace Total: $45.67''))"

definition receipt_backend :: "unit backend" where
  "receipt_backend = stub_backend (u ''2026-11-04'') (Inr ()) (Inr (u ''Pizza Palace Total: $45.67''))"

definition failing_employee_service :: "unit service" where
  "failing_employee_service = stub_service (Inl (Exn (u ''boom''))) (Inr (Some (u ''Pizza Palace'')))
     (Inr (u ''2024-03-15'')) (Inr (u ''Food'')) (Inr (u ''UPI'')) (Inr None) (Inr (Some (u ''45.67'')))"

definition failing_date_amount_service :: "unit service" where
  "failing_date_amount_service = stub_service (Inr None) (Inr (Some (u ''Pizza Palace'')))
     (Inl (Exn (u ''bad date''))) (Inr (u ''Food'')) (Inr (u ''UPI'')) (Inr None)
     (Inl (Exn (u ''bad amount'')))"

subsection \<open>Keyword classifiers: \<open>_extract_category\<close> and \<open>_extract_payment_method\<close>\<close>

text \<open>
  \<open>str.lower()\<close> on the ASCII letters.  On other code points Python applies the Unicode
  tables (case mapping, decimal digits, word characters), which are not modelled: the
  statements that depend on them are for plain texts, made of ASCII code points and the
  currency symbols of the amount patterns (pound 163, euro 8364, rupee 8377), which have
  no case and are neither digits nor word characters.
\<close>

definition lower_cp :: "nat \<Rightarrow> nat" where
  "lower_cp c = (if 65 \<le> c \<and> c \<le> 90 then c + 32 else c)"

definition lower :: "ustr \<Rightarrow> ustr" where
  "lower s = map lower_cp s"

definition plain_text :: "ustr \<Rightarrow> bool" where
  "plain_text s = list_all (\<lambda>c. c < 128 \<or> c = 163 \<or> c = 8364 \<or> c = 8377) s"

text \<open>The substring test \<open>sub in s\<close>.\<close>

fun contains :: "ustr \<Rightarrow> ustr \<Rightarrow> bool" where
  "contains sub [] = (sub = [])"
| "contains sub (c # s) = (take (length sub) (c # s) = sub \<or> contains sub s)"

text \<open>
  The loop over \<open>table.items()\<close> shared by the two classifiers: the first label, in the
  order of the dictionary display, one of whose keywords occurs in the lower-cased text;
  the default when there is none.
\<close>

fun first_label :: "(ustr \<times> ustr list) list \<Rightarrow> ustr \<Rightarrow> ustr \<Rightarrow> ustr" where
  "first_label [] text_lower dflt = dflt"
| "first_label ((label, keywords) # rest) text_lower dflt =
     (if list_ex (\<lambda>keyword. contains keyword text_lower) keywords then label
      else first_label rest text_lower dflt)"

definition food_keywords :: "ustr list" where
  "food_keywords = map u [''restaurant'', ''cafe'', ''coffee'', ''food'', ''dining'', ''meal'',
     ''breakfast'', ''lunch'', ''dinner'', ''pizza'', ''burger'', ''kitchen'', ''grill'', ''bistro'']"

definition transportation_keywords :: "ustr list" where
  "transportation_keywords = map u [''taxi'', ''uber'', ''lyft'', ''ola'', ''fuel'', ''gas'',
     ''petrol'', ''parking'', ''toll'', ''metro'', ''train'', ''flight'', ''bus'']"

definition categories :: "(ustr \<times> ustr list) list" where
  "categories =
     [(u ''Food'', food_keywords),
      (u ''Transportation'', transportation_keywords),
      (u ''Accommodation'', map u [''hotel'', ''motel'', ''accommodation'', ''lodging'', ''airbnb'', ''resort'']),
      (u ''Office Supplies'', map u [''office'', ''supplies'', ''stationery'', ''printer'', ''paper'']),
      (u ''Entertainment'', map u [''movie'', ''cinema'', ''theater'', ''entertainment'', ''show'']),
      (u ''Medical'', map u [''pharmacy'', ''medical'', ''hospital'', ''clinic'', ''doctor'', ''medicine'']),
      (u ''Utilities'', map u [''electric'', ''water'', ''internet'', ''phone'', ''utility''])]"

text \<open>
  \<open>_extract_category\<close> over the function that stands for \<open>str.lower\<close>, and with the
  ASCII \<open>lower\<close> above.
\<close>

definition extract_category_with :: "(ustr \<Rightarrow> ustr) \<Rightarrow> ustr \<Rightarrow> ustr" where
  "extract_category_with to_lower text = first_label categories (to_lower text) (u ''Other'')"

definition extract_category :: "ustr \<Rightarrow> ustr" where
  "extract_category text = extract_category_with lower text"

definition payment_methods :: "(ustr \<times> ustr list) list" where
  "payment_methods =
     [(u ''Credit Card'', map u [''credit'', ''visa'', ''mastercard'', ''amex'']),
      (u ''Debit Card'', map u [''debit'']),
      (u ''UPI'', map u [''upi'', ''paytm'', ''gpay'', ''phonepe'', ''bhim'']),
      (u ''Cash'', map u [''cash''])]"

definition extract_payment_method :: "ustr \<Rightarrow> ustr" where
  "extract_payment_method text = first_label payment_methods (lower text) (u ''Cash'')"

subsection \<open>Regular expressions: the fragment of \<open>re\<close> that the extractors use\<close>

text \<open>
  One character of a pattern: \<open>\d\<close>, \<open>\s\<close>, a literal or a set of literals, a range,
  a union of these (a bracket set) and a complemented set.  Under \<open>re.IGNORECASE\<close> a
  literal or a range also matches a character whose other case it contains.
\<close>

datatype item = Digit | Space | Chars "nat list" | Range nat nat | Or item item | Not item

definition upper_cp :: "nat \<Rightarrow> nat" where
  "upper_cp c = (if 97 \<le> c \<and> c \<le> 122 then c - 32 else c)"

text \<open>
  \<open>is_digit\<close> is the class \<open>\d\<close> on plain texts: the ASCII digits.  In a \<open>str\<close>
  pattern \<open>\d\<close> also matches the other Unicode decimal digits, and \<open>float\<close> reads
  them; they are not modelled, so the general statements about the searches and about
  \<open>py_float\<close> are for plain texts.
\<close>

definition is_digit :: "nat \<Rightarrow> bool" where
  "is_digit c \<longleftrightarrow> 48 \<le> c \<and> c \<le> 57"

fun item_match :: "bool \<Rightarrow> item \<Rightarrow> nat \<Rightarrow> bool" where
  "item_match ic Digit c = is_digit c"
| "item_match ic Space c = is_space c"
| "item_match ic (Chars cs) c = (c \<in> set cs \<or> (ic \<and> (lower_cp c \<in> set cs \<or> upper_cp c \<in> set cs)))"
| "item_match ic (Range a b) c = ((a \<le> c \<and> c \<le> b) \<or>
     (ic \<and> ((a \<le> lower_cp c \<and> lower_cp c \<le> b) \<or> (a \<le> upper_cp c \<and> upper_cp c \<le> b))))"
| "item_match ic (Or i j) c = (item_match ic i c \<or> item_match ic j c)"
| "item_match ic (Not i) c = (\<not> item_match ic i c)"

text \<open>
  Patterns: the empty pattern, one character, a greedy repetition \<open>x{m,n}\<close> of one
  character (\<open>None\<close> for no upper bound, so \<open>x*\<close> is \<open>Rep x 0 None\<close>, \<open>x+\<close> is
  \<open>Rep x 1 None\<close> and \<open>x?\<close> is \<open>Rep x 0 (Some 1)\<close>), sequence, ordered alternative,
  the capturing group (the patterns have at most one), the word boundary \<open>\b\<close>, and the
  anchors \<open>^\<close> and \<open>$\<close> without \<open>re.MULTILINE\<close>.
\<close>

datatype rx = Eps | One item | Rep item nat "nat option" | Seq rx rx | Alt rx rx | Group rx
  | WordB | Bol | Eol

text \<open>
  A matcher state: the code point before the current position (\<open>None\<close> at the start of
  the text), the rest of the text, and what group 1 has captured.
\<close>

type_synonym mstate = "nat option \<times> ustr \<times> ustr option"

definition is_word :: "nat \<Rightarrow> bool" where
  "is_word c \<longleftrightarrow> is_digit c \<or> (65 \<le> c \<and> c \<le> 90) \<or> (97 \<le> c \<and> c \<le> 122) \<or> c = 95"

definition at_boundary :: "nat option \<Rightarrow> ustr \<Rightarrow> bool" where
  "at_boundary p s \<longleftrightarrow>
     (case p of None \<Rightarrow> False | Some c \<Rightarrow> is_word c) \<noteq> (case s of [] \<Rightarrow> False | c # _ \<Rightarrow> is_word c)"

text \<open>
  The states after a greedy repetition, in the order in which backtracking tries them:
  the longest run first, then one character less, down to the minimum.
\<close>

fun reps :: "bool \<Rightarrow> item \<Rightarrow> nat \<Rightarrow> nat option \<Rightarrow> nat option \<Rightarrow> ustr option \<Rightarrow> ustr \<Rightarrow> mstate list" where
  "reps ic i m n p g [] = (if m = 0 then [(p, [], g)] else [])"
| "reps ic i m n p g (c # s) =
     (if item_match ic i c \<and> n \<noteq> Some 0
      then reps ic i (m - 1) (map_option (\<lambda>k. k - 1) n) (Some c) g s else [])
     @ (if m = 0 then [(p, c # s, g)] else [])"

text \<open>
  All the ways a pattern matches at a state, in backtracking order: the head of the list
  is the match that \<open>re\<close> reports.
\<close>

fun matches :: "bool \<Rightarrow> rx \<Rightarrow> mstate \<Rightarrow> mstate list" where
  "matches ic Eps st = [st]"
| "matches ic (One i) (p, s, g) =
     (case s of [] \<Rightarrow> [] | c # s' \<Rightarrow> if item_match ic i c then [(Some c, s', g)] else [])"
| "matches ic (Rep i m n) (p, s, g) = reps ic i m n p g s"
| "matches ic (Seq a b) st = concat (map (matches ic b) (matches ic a st))"
| "matches ic (Alt a b) st = matches ic a st @ matches ic b st"
| "matches ic (Group a) (p, s, g) =
     map (\<lambda>(p', s', _). (p', s', Some (take (length s - length s') s))) (matches ic a (p, s, g))"
| "matches ic WordB (p, s, g) = (if at_boundary p s then [(p, s, g)] else [])"
| "matches ic Bol (p, s, g) = (if p = None then [(p, s, g)] else [])"
| "matches ic Eol (p, s, g) = (if s = [] \<or> s = [10] then [(p, s, g)] else [])"

text \<open>
  \<open>re.search\<close> from a position on: the first position, left to right, at which the
  pattern matches; the result is \<open>(group(0), group(1))\<close>.
\<close>

fun search_from :: "bool \<Rightarrow> rx \<Rightarrow> nat option \<Rightarrow> ustr \<Rightarrow> (ustr \<times> ustr option) option" where
  "search_from ic r p [] =
     (case matches ic r (p, [], None) of
        (p', s', g) # _ \<Rightarrow> Some ([], g)
      | [] \<Rightarrow> None)"
| "search_from ic r p (c # s) =
     (case matches ic r (p, c # s, None) of
        (p', s', g) # _ \<Rightarrow> Some (take (length (c # s) - length s') (c # s), g)
      | [] \<Rightarrow> search_from ic r (Some c) s)"

definition search :: "bool \<Rightarrow> rx \<Rightarrow> ustr \<Rightarrow> (ustr \<times> ustr option) option" where
  "search ic r text = search_from ic r None text"

text \<open>A literal string and a sequence of patterns.\<close>

definition lit :: "string \<Rightarrow> rx" where
  "lit s = foldr (\<lambda>c r. Seq (One (Chars [of_char c])) r) s Eps"

definition seqs :: "rx list \<Rightarrow> rx" where
  "seqs rs = foldr Seq rs Eps"

text \<open>
  \<open>re.findall\<close> for a pattern with one group: the captures of the successive
  non-overlapping matches, left to right.  \<open>skip\<close> counts the characters still covered
  by the last match; after an empty match the scan moves on by one character.
\<close>

fun findall_from :: "bool \<Rightarrow> rx \<Rightarrow> nat \<Rightarrow> nat option \<Rightarrow> ustr \<Rightarrow> ustr list" where
  "findall_from ic r skip p [] =
     (if skip = 0 then
        (case matches ic r (p, [], None) of
           (p', s', g) # _ \<Rightarrow> [case g of Some x \<Rightarrow> x | None \<Rightarrow> []]
         | [] \<Rightarrow> [])
      else [])"
| "findall_from ic r skip p (c # s) =
     (if 0 < skip then findall_from ic r (skip - 1) (Some c) s
      else
        (case matches ic r (p, c # s, None) of
           (p', s', g) # _ \<Rightarrow>
             (case g of Some x \<Rightarrow> x | None \<Rightarrow> [])
               # findall_from ic r (length (c # s) - length s' - 1) (Some c) s
         | [] \<Rightarrow> findall_from ic r 0 (Some c) s))"

definition findall :: "bool \<Rightarrow> rx \<Rightarrow> ustr \<Rightarrow> ustr list" where
  "findall ic r text = findall_from ic r 0 None text"

subsection \<open>Floating point: \<open>float\<close> as IEEE 754 binary64\<close>

text \<open>
  The floats of this program are never negative.  A float is a pair \<open>(m, e)\<close> that
  stands for $m \cdot 2^e$; \<open>infinity\<close> stands for \<open>inf\<close>.  \<open>fl_div a b\<close> is the binary64
  value nearest to \<open>a / b\<close>, ties to even: 53 significant bits, the exponent of the last
  bit not below -1074, infinity from $2^{1024}$ on.  It is Python's \<open>a / b\<close> on integers
  and, for a decimal numeral, \<open>float\<close> of its digits over a power of ten.
\<close>

type_synonym float = "nat \<times> int"

fun bit_length :: "nat \<Rightarrow> nat" where
  "bit_length n = (if n = 0 then 0 else Suc (bit_length (n div 2)))"

declare bit_length.simps [simp del]

text \<open>\<open>ilog2 a b\<close> is the integer \<open>e\<close> with $2^e \le a / b < 2^{e+1}$, for positive \<open>a\<close>, \<open>b\<close>.\<close>

definition ilog2 :: "nat \<Rightarrow> nat \<Rightarrow> int" where
  "ilog2 a b =
     (let k = int (bit_length a) - int (bit_length b) in
      if (if 0 \<le> k then 2 ^ nat k * b \<le> a else b \<le> 2 ^ nat (- k) * a) then k else k - 1)"

text \<open>The integer nearest to \<open>num / den\<close>, ties to even.\<close>

definition round_half_even :: "nat \<Rightarrow> nat \<Rightarrow> nat" where
  "round_half_even num den =
     (let q = num div den; r = num mod den in
      if 2 * r < den then q else if den < 2 * r then q + 1 else if even q then q else q + 1)"

definition infinity :: float where
  "infinity = (1, 1024)"

definition fl_div :: "nat \<Rightarrow> nat \<Rightarrow> float" where
  "fl_div a b =
     (if a = 0 then (0, 0)
      else
        let sh = max (ilog2 a b) (- 1022) - 52;
            m = (if 0 \<le> sh then round_half_even a (b * 2 ^ nat sh)
                 else round_half_even (a * 2 ^ nat (- sh)) b)
        in if 971 < sh \<or> (sh = 971 \<and> 2 ^ 53 \<le> m) then infinity else (m, sh))"

text \<open>The order of floats (and of a float and an integer, which Python compares exactly).\<close>

fun fless :: "float \<Rightarrow> float \<Rightarrow> bool" where
  "fless (m1, e1) (m2, e2) =
     (if e1 \<le> e2 then m1 < m2 * 2 ^ nat (e2 - e1) else m1 * 2 ^ nat (e1 - e2) < m2)"

text \<open>
  \<open>float(s)\<close> on the strings that the number group can capture once the commas are
  removed: ASCII digits and dots, beginning with a digit.  (\<open>float\<close> also accepts signs,
  exponents, blanks, underscores, \<open>inf\<close> and \<open>nan\<close>, which do not occur in them.)
  \<open>None\<close> is the \<open>ValueError\<close>.
\<close>

definition digits_value :: "ustr \<Rightarrow> nat" where
  "digits_value ds = foldl (\<lambda>a c. 10 * a + (c - 48)) 0 ds"

definition py_float :: "ustr \<Rightarrow> float option" where
  "py_float s =
     (let ip = takeWhile is_digit s; rest = dropWhile is_digit s in
      case rest of
        [] \<Rightarrow> if ip = [] then None else Some (fl_div (digits_value ip) 1)
      | c # fp \<Rightarrow>
          if c = 46 \<and> list_all is_digit fp \<and> \<not> (ip = [] \<and> fp = [])
          then Some (fl_div (digits_value (ip @ fp)) (10 ^ length fp))
          else None)"

subsection \<open>The amount extractor: \<open>_extract_amount\<close>\<close>

definition currency :: item where
  "currency = Chars [36, 8377, 8364, 163]"

text \<open>The group \<open>(\d+[,.]?\d*\.?\d*)\<close>.\<close>

definition number_group :: rx where
  "number_group = Group (seqs [Rep Digit 1 None, Rep (Chars [44, 46]) 0 (Some 1),
     Rep Digit 0 None, Rep (Chars [46]) 0 (Some 1), Rep Digit 0 None])"

text \<open>A label followed by \<open>[:\s]*[\$...]?\s*\<close> and the number group.\<close>

definition labelled :: "rx \<Rightarrow> rx" where
  "labelled l = seqs [l, Rep (Or (Chars [58]) Space) 0 None, Rep currency 0 (Some 1),
     Rep Space 0 None, number_group]"

definition amount_patterns :: "rx list" where
  "amount_patterns =
     [labelled (lit ''total''),
      labelled (lit ''amount''),
      labelled (seqs [lit ''grand'', Rep Space 0 None, lit ''total'']),
      labelled (lit ''balance''),
      seqs [One currency, Rep Space 0 None, number_group]]"

text \<open>The pattern \<open>\b(\d+\.\d{2})\b\<close> of the fallback.\<close>

definition money_token :: rx where
  "money_token = seqs [WordB, Group (seqs [Rep Digit 1 None, One (Chars [46]),
     Rep Digit 2 (Some 2)]), WordB]"

text \<open>\<open>s.replace(',', '')\<close>.\<close>

definition remove_commas :: "ustr \<Rightarrow> ustr" where
  "remove_commas s = filter (\<lambda>c. c \<noteq> 44) s"

text \<open>
  The loop over the patterns: a match whose number parses to a float strictly between 0
  and 1000000 is returned as the string without commas; a \<open>ValueError\<close> or a value out of
  range goes on to the next pattern.
\<close>

fun try_patterns :: "rx list \<Rightarrow> ustr \<Rightarrow> ustr option" where
  "try_patterns [] text = None"
| "try_patterns (pattern # rest) text =
     (case search True pattern text of
        Some (m, Some g) \<Rightarrow>
          (let amount = remove_commas g in
           case py_float amount of
             Some float_amount \<Rightarrow>
               if fless (0, 0) float_amount \<and> fless float_amount (1000000, 0) then Some amount
               else try_patterns rest text
           | None \<Rightarrow> try_patterns rest text)
      | _ \<Rightarrow> try_patterns rest text)"

text \<open>\<open>max(amounts, key=float)\<close>: the first element whose key is the greatest.\<close>

fun max_by :: "('a \<Rightarrow> float) \<Rightarrow> 'a \<Rightarrow> 'a list \<Rightarrow> 'a" where
  "max_by key best [] = best"
| "max_by key best (x # xs) = max_by key (if fless (key best) (key x) then x else best) xs"

text \<open>The key \<open>float(x)\<close>; every match of the fallback pattern parses.\<close>

definition float_key :: "ustr \<Rightarrow> float" where
  "float_key x = (case py_float x of Some v \<Rightarrow> v | None \<Rightarrow> (0, 0))"

definition extract_amount :: "ustr \<Rightarrow> ustr option" where
  "extract_amount text =
     (case try_patterns amount_patterns text of
        Some amount \<Rightarrow> Some amount
      | None \<Rightarrow>
          (case findall False money_token text of
             [] \<Rightarrow> None
           | a # amounts \<Rightarrow> Some (max_by float_key a amounts)))"

text \<open>
  For the statement about the order of the patterns: the number that a match carries,
  commas removed, when it parses to a float strictly between 0 and 1000000.
\<close>

definition valid_amount :: "(ustr \<times> ustr option) option \<Rightarrow> ustr option" where
  "valid_amount found =
     (case found of
        Some (m, Some g) \<Rightarrow>
          (case py_float (remove_commas g) of
             Some v \<Rightarrow>
               if fless (0, 0) v \<and> fless v (1000000, 0) then Some (remove_commas g) else None
           | None \<Rightarrow> None)
      | _ \<Rightarrow> None)"

subsection \<open>The date extractor: \<open>_extract_date\<close>\<close>

text \<open>Ordered alternatives \<open>a|b|...\<close>.\<close>

fun alts :: "rx \<Rightarrow> rx list \<Rightarrow> rx" where
  "alts r [] = r"
| "alts r (x # xs) = Alt r (alts x xs)"

text \<open>
  The three structural patterns, searched with \<open>re.IGNORECASE\<close>:
  \<open>(\d{1,2}[-/]\d{1,2}[-/]\d{2,4})\<close>, \<open>(\d{4}[-/]\d{1,2}[-/]\d{1,2})\<close> and
  \<open>(\d{1,2}\s+(?:jan|feb|...|dec)[a-z]*\s+\d{2,4})\<close>.
\<close>

definition date_patterns :: "rx list" where
  "date_patterns =
     [Group (seqs [Rep Digit 1 (Some 2), One (Chars [45, 47]), Rep Digit 1 (Some 2),
        One (Chars [45, 47]), Rep Digit 2 (Some 4)]),
      Group (seqs [Rep Digit 4 (Some 4), One (Chars [45, 47]), Rep Digit 1 (Some 2),
        One (Chars [45, 47]), Rep Digit 1 (Some 2)]),
      Group (seqs [Rep Digit 1 (Some 2), Rep Space 1 None,
        alts (lit ''jan'') (map lit [''feb'', ''mar'', ''apr'', ''may'', ''jun'', ''jul'', ''aug'',
          ''sep'', ''oct'', ''nov'', ''dec'']),
        Rep (Range 97 122) 0 None, Rep Space 1 None, Rep Digit 2 (Some 4)])]"

text \<open>
  \<open>datetime.strptime\<close>.  A format is a list of directives: \<open>%d\<close>, \<open>%m\<close>, \<open>%Y\<close>,
  \<open>%B\<close>, \<open>%b\<close>, a literal character and a blank.  \<open>strptime\<close> turns the format into
  a regular expression, each directive into a named group and each blank into \<open>\s+\<close>:
  \<open>%d\<close> is \<open>3[0-1]|[1-2]\d|0[1-9]|[1-9]| [1-9]\<close>, \<open>%m\<close> is \<open>1[0-2]|0[1-9]|[1-9]\<close>,
  \<open>%Y\<close> is \<open>\d\d\d\d\<close>, \<open>%B\<close> and \<open>%b\<close> are the alternatives of the month names
  of the C locale, the longest first.  It matches the expression at the start of the
  string, ignoring case, and fails when the match does not reach the end of the string.
\<close>

datatype directive = D_day | D_month | D_year | D_month_name | D_month_abbr | D_char nat | D_space

definition month_names :: "string list" where
  "month_names = [''january'', ''february'', ''march'', ''april'', ''may'', ''june'', ''july'',
     ''august'', ''september'', ''october'', ''november'', ''december'']"

definition month_abbrs :: "string list" where
  "month_abbrs = [''jan'', ''feb'', ''mar'', ''apr'', ''may'', ''jun'', ''jul'', ''aug'', ''sep'',
     ''oct'', ''nov'', ''dec'']"

fun directive_rx :: "directive \<Rightarrow> rx" where
  "directive_rx D_day =
     alts (Seq (One (Chars [51])) (One (Range 48 49)))
       [Seq (One (Range 49 50)) (One Digit), Seq (One (Chars [48])) (One (Range 49 57)),
        One (Range 49 57), Seq (One (Chars [32])) (One (Range 49 57))]"
| "directive_rx D_month =
     alts (Seq (One (Chars [49])) (One (Range 48 50)))
       [Seq (One (Chars [48])) (One (Range 49 57)), One (Range 49 57)]"
| "directive_rx D_year = Rep Digit 4 (Some 4)"
| "directive_rx D_month_name =
     alts (lit ''september'') (map lit [''february'', ''november'', ''december'', ''january'',
       ''october'', ''august'', ''march'', ''april'', ''june'', ''july'', ''may''])"
| "directive_rx D_month_abbr = alts (lit ''jan'') (map lit (tl month_abbrs))"
| "directive_rx (D_char c) = One (Chars [c])"
| "directive_rx D_space = Rep Space 1 None"

text \<open>
  The matches of a format at a position, in backtracking order: each with what the
  directives have matched, in the order of the format, and the rest of the string.
\<close>

fun format_matches ::
    "directive list \<Rightarrow> nat option \<Rightarrow> ustr \<Rightarrow> ((directive \<times> ustr) list \<times> ustr) list" where
  "format_matches [] p s = [([], s)]"
| "format_matches (d # ds) p s =
     concat (map (\<lambda>(p', s', g).
         map (\<lambda>(found, rest). ((d, take (length s - length s') s) # found, rest))
           (format_matches ds p' s'))
       (matches True (directive_rx d) (p, s, None)))"

text \<open>
  The fields of the match: \<open>int\<close> of the digits for \<open>%d\<close>, \<open>%m\<close> and \<open>%Y\<close>, the
  place of the lower-cased name in the list of the month names for \<open>%B\<close> and \<open>%b\<close>.
\<close>

fun index_of :: "'a \<Rightarrow> 'a list \<Rightarrow> nat" where
  "index_of x [] = 0"
| "index_of x (y # ys) = (if x = y then 0 else Suc (index_of x ys))"

fun field :: "directive \<Rightarrow> (directive \<times> ustr) list \<Rightarrow> nat option" where
  "field d [] = None"
| "field d ((d', s) # found) = (if d = d' then Some (digits_value (filter is_digit s)) else field d found)"

fun month_field :: "(directive \<times> ustr) list \<Rightarrow> nat option" where
  "month_field [] = None"
| "month_field ((d, s) # found) =
     (if d = D_month then Some (digits_value s)
      else if d = D_month_name then Some (Suc (index_of (lower s) (map u month_names)))
      else if d = D_month_abbr then Some (Suc (index_of (lower s) (map u month_abbrs)))
      else month_field found)"

text \<open>The calendar: \<open>datetime\<close> accepts the years 1 to 9999 and the days of the month.\<close>

definition is_leap :: "nat \<Rightarrow> bool" where
  "is_leap y = (if y mod 400 = 0 then True else if y mod 100 = 0 then False else y mod 4 = 0)"

definition days_in_month :: "nat \<Rightarrow> nat \<Rightarrow> nat" where
  "days_in_month y m =
     (if m = 2 then (if is_leap y then 29 else 28)
      else if m = 4 \<or> m = 6 \<or> m = 9 \<or> m = 11 then 30 else 31)"

text \<open>
  \<open>datetime.strptime(date_str, fmt)\<close>: the date \<open>(year, month, day)\<close>, or \<open>None\<close> for
  the \<open>ValueError\<close>.  The formats of this program have the three fields.
\<close>

definition strptime :: "ustr \<Rightarrow> directive list \<Rightarrow> (nat \<times> nat \<times> nat) option" where
  "strptime date_str fmt =
     (case format_matches fmt None date_str of
        [] \<Rightarrow> None
      | (found, rest) # _ \<Rightarrow>
          if rest \<noteq> [] then None
          else
            (case (field D_year found, month_field found, field D_day found) of
               (Some y, Some m, Some d) \<Rightarrow>
                 if 1 \<le> y \<and> 1 \<le> m \<and> m \<le> 12 \<and> 1 \<le> d \<and> d \<le> days_in_month y m
                 then Some (y, m, d) else None
             | _ \<Rightarrow> None))"

text \<open>
  \<open>strftime('%Y-%m-%d')\<close>, the year written with four digits (some C libraries do not
  pad a year below 1000).
\<close>

definition pad2 :: "nat \<Rightarrow> ustr" where
  "pad2 n = [48 + n div 10 mod 10, 48 + n mod 10]"

fun strftime :: "nat \<times> nat \<times> nat \<Rightarrow> ustr" where
  "strftime (y, m, d) = pad2 (y div 100) @ pad2 y @ [45] @ pad2 m @ [45] @ pad2 d"

text \<open>The seven formats, in the order of the inner loop.\<close>

definition date_formats :: "directive list list" where
  "date_formats =
     [[D_day, D_char 45, D_month, D_char 45, D_year],
      [D_month, D_char 45, D_day, D_char 45, D_year],
      [D_year, D_char 45, D_month, D_char 45, D_day],
      [D_day, D_char 47, D_month, D_char 47, D_year],
      [D_month, D_char 47, D_day, D_char 47, D_year],
      [D_day, D_space, D_month_name, D_space, D_year],
      [D_day, D_space, D_month_abbr, D_space, D_year]]"

text \<open>The inner loop: the first format under which the string parses.\<close>

fun try_formats :: "directive list list \<Rightarrow> ustr \<Rightarrow> ustr option" where
  "try_formats [] date_str = None"
| "try_formats (fmt # rest) date_str =
     (case strptime date_str fmt of
        Some parsed_date \<Rightarrow> Some (strftime parsed_date)
      | None \<Rightarrow> try_formats rest date_str)"

text \<open>
  The outer loop: for each pattern that matches, the inner loop on \<open>match.group(0)\<close>;
  when no format parses it, the loop goes on with the next pattern.
\<close>

fun try_date_patterns :: "rx list \<Rightarrow> ustr \<Rightarrow> ustr option" where
  "try_date_patterns [] text = None"
| "try_date_patterns (pattern # rest) text =
     (case search True pattern text of
        Some (date_str, g) \<Rightarrow>
          (case try_formats date_formats date_str of
             Some r \<Rightarrow> Some r
           | None \<Rightarrow> try_date_patterns rest text)
      | None \<Rightarrow> try_date_patterns rest text)"

text \<open>
  \<open>_extract_date\<close>, declared \<open>Optional[str]\<close>; \<open>now\<close> is
  \<open>datetime.now().strftime('%Y-%m-%d')\<close>.
\<close>

definition extract_date :: "ustr \<Rightarrow> ustr \<Rightarrow> ustr option" where
  "extract_date now text =
     (case try_date_patterns date_patterns text of
        Some r \<Rightarrow> Some r
      | None \<Rightarrow> Some now)"

text \<open>
  For the statement about the date extractor, in the words of its description: the parse
  of a string is that of the first format, in the order of the list, under which it
  parses; the candidates of a text are the leftmost matches of the patterns, in the order
  of the patterns; the date of a text is the parse of the first candidate that has one,
  and the current date when no candidate has one.
\<close>

definition first_parse :: "ustr \<Rightarrow> ustr option" where
  "first_parse date_str =
     (case List.map_filter (strptime date_str) date_formats of
        [] \<Rightarrow> None
      | parsed_date # _ \<Rightarrow> Some (strftime parsed_date))"

definition date_candidates :: "ustr \<Rightarrow> ustr list" where
  "date_candidates text =
     List.map_filter (\<lambda>pattern. map_option fst (search True pattern text)) date_patterns"

definition first_parsed_candidate :: "ustr \<Rightarrow> ustr \<Rightarrow> ustr" where
  "first_parsed_candidate now text =
     (case List.map_filter first_parse (date_candidates text) of
        [] \<Rightarrow> now
      | r # _ \<Rightarrow> r)"

subsection \<open>The image normalizer: \<open>_preprocess_image\<close>\<close>

text \<open>
  What the normalizer reads of a PIL image: its mode and its size.  \<open>convert\<close> changes
  the mode and keeps the size; \<open>resize\<close> changes the size, and raises \<open>ValueError\<close> when
  a side of the new size is below 1.
\<close>

record image =
  mode :: string
  width :: nat
  height :: nat











section \<open>Verified properties\<close>

subsection \<open>The orchestrator\<close>

lemma extracted_data_keys:
  assumes "extracted_data sv now t = Inr d"
  shows "map fst d = result_keys \<and>
     (\<exists>c p. map_of d (u ''category'') = Some (Some c) \<and> map_of d (u ''paid_by'') = Some (Some p))"
proof -
  from assms obtain e de da c p r a where
    d: "d = [(u ''employee'', e), (u ''description'', de), (u ''date'', Some da),
             (u ''category'', Some c), (u ''paid_by'', Some p), (u ''remark'', r), (u ''amount'', a)]"
    unfolding extracted_data_def
    by (cases "m_extract_employee sv t"; cases "m_extract_description sv t";
        cases "m_extract_date sv now t"; cases "m_extract_category sv t";
        cases "m_extract_payment_method sv t"; cases "m_extract_remark sv t";
        cases "m_extract_amount sv t") auto
  show ?thesis unfolding d by (simp add: result_keys_def u_def)
qed

lemma empty_response_keys:
  "map fst (empty_response now m) = result_keys \<and>
   map_of (empty_response now m) (u ''category'') = Some (Some (u ''Other'')) \<and>
   map_of (empty_response now m) (u ''paid_by'') = Some (Some (u ''Cash''))"
  by (simp add: empty_response_def result_keys_def u_def)

lemma try_body_keys:
  assumes "try_body sv be bs = Inr d"
  shows "map fst d = result_keys \<and>
     (\<exists>c p. map_of d (u ''category'') = Some (Some c) \<and> map_of d (u ''paid_by'') = Some (Some p))"
proof (cases "image_open be bs")
  case (Inl e)
  with assms show ?thesis by (simp add: try_body_def)
next
  case (Inr img)
  show ?thesis
  proof (cases "image_to_string be (m_preprocess_image sv img)")
    case (Inl e)
    with Inr assms show ?thesis by (simp add: try_body_def)
  next
    case t: (Inr t)
    show ?thesis
    proof (cases "t = [] \<or> length (strip t) < 10")
      case True
      with Inr t assms have "d = empty_response (today be) no_text_message"
        by (auto simp add: try_body_def)
      then show ?thesis using empty_response_keys by blast
    next
      case False
      with Inr t assms have "extracted_data sv (today be) t = Inr d"
        by (auto simp add: try_body_def)
      then show ?thesis by (rule extracted_data_keys)
    qed
  qed
qed

text \<open>
  Claim C9.  For every input byte string, decodable or not, and whatever the recognizer and
  the extractors do, \<open>extract_expense_details\<close> does not raise: it returns a mapping
  whose keys are exactly employee, description, date, category, paid_by, remark, amount,
  and in which category and paid_by are not absent.
\<close>

theorem never_raises:
  "\<exists>d. extract_expense_details_with sv be bs = Inr d \<and> map fst d = result_keys \<and>
     (\<exists>c p. map_of d (u ''category'') = Some (Some c) \<and> map_of d (u ''paid_by'') = Some (Some p))"
proof (cases "try_body sv be bs")
  case (Inl e)
  obtain msg where "e = Exn msg" by (cases e)
  with Inl have "extract_expense_details_with sv be bs =
      Inr (empty_response (today be) (u ''OCR processing failed: '' @ msg))"
    by (simp add: extract_expense_details_with_def)
  then show ?thesis using empty_response_keys by blast
next
  case (Inr d)
  then have "extract_expense_details_with sv be bs = Inr d"
    by (simp add: extract_expense_details_with_def)
  then show ?thesis using try_body_keys [OF Inr] by blast
qed

text \<open>
  Claim C4.  When the recognized text is empty or its stripped length is below 10, the
  call returns the canonical empty response: category Other, paid_by Cash, the current
  date, employee, remark and amount absent, and the "no text detected" message as the
  description.
\<close>

theorem short_text_empty_response:
  assumes "image_open be bs = Inr img"
    and "image_to_string be (m_preprocess_image sv img) = Inr t"
    and "t = [] \<or> length (strip t) < 10"
  shows "extract_expense_details_with sv be bs =
     Inr [(u ''employee'', None),
          (u ''description'', Some (u ''No text detected in image. Please ensure the receipt is clear and well-lit.'')),
          (u ''date'', Some (today be)),
          (u ''category'', Some (u ''Other'')),
          (u ''paid_by'', Some (u ''Cash'')),
          (u ''remark'', None),
          (u ''amount'', None)]"
  using assms
  by (auto simp add: extract_expense_details_with_def try_body_def empty_response_def
      no_text_message_def u_def)

theorem short_text_empty_response_witness:
  "image_open (stub_backend (u ''2026-11-04'') (Inr ()) (Inr (u ''  Total 5  ''))) ''abc'' = Inr () \<and>
   image_to_string (stub_backend (u ''2026-11-04'') (Inr ()) (Inr (u ''  Total 5  '')))
      (m_preprocess_image sample_service ()) = Inr (u ''  Total 5  '') \<and>
   (u ''  Total 5  '' = [] \<or> length (strip (u ''  Total 5  '')) < 10) \<and>
   extract_expense_details_with sample_service
      (stub_backend (u ''2026-11-04'') (Inr ()) (Inr (u ''  Total 5  ''))) ''abc'' =
     Inr [(u ''employee'', None),
          (u ''description'', Some (u ''No text detected in image. Please ensure the receipt is clear and well-lit.'')),
          (u ''date'', Some (u ''2026-11-04'')),
          (u ''category'', Some (u ''Other'')),
          (u ''paid_by'', Some (u ''Cash'')),
          (u ''remark'', None),
          (u ''amount'', None)]"
proof -
  let ?be = "stub_backend (u ''2026-11-04'') (Inr ()) (Inr (u ''  Total 5  ''))"
  have a: "image_open ?be ''abc'' = Inr ()" by (simp add: stub_backend_def)
  have b: "image_to_string ?be (m_preprocess_image sample_service ()) = Inr (u ''  Total 5  '')"
    by (simp add: stub_backend_def)
  have c: "u ''  Total 5  '' = [] \<or> length (strip (u ''  Total 5  '')) < 10"
    by (simp add: u_def strip_def lstrip_def rstrip_def is_space_def)
  have t: "today ?be = u ''2026-11-04''" by (simp add: stub_backend_def)
  show ?thesis using a b c short_text_empty_response [OF a b c] unfolding t by simp
qed

text \<open>
  Claim C1, as stated, fails: \<open>Image.open\<close> is inside the \<open>try\<close> block and the handler
  catches every \<open>Exception\<close>, so bytes that cannot be decoded give the empty response and
  nothing is raised.
\<close>

theorem decode_error_counterexample:
  "image_open undecodable_backend ''not an image'' = Inl (Exn (u ''cannot identify image file'')) \<and>
   extract_expense_details_with sample_service undecodable_backend ''not an image'' =
     Inr [(u ''employee'', None),
          (u ''description'', Some (u ''OCR processing failed: cannot identify image file'')),
          (u ''date'', Some (u ''2026-11-04'')),
          (u ''category'', Some (u ''Other'')),
          (u ''paid_by'', Some (u ''Cash'')),
          (u ''remark'', None),
          (u ''amount'', None)]"
  by (simp add: undecodable_backend_def stub_backend_def extract_expense_details_with_def
      try_body_def empty_response_def u_def)

text \<open>
  Claim C1, amended.  For every input byte string that cannot be decoded, the decode
  error is caught by the handler of \<open>extract_expense_details\<close>: the call returns the
  canonical empty response whose description is \<open>OCR processing failed: \<close> followed by
  the error's message.
\<close>

theorem decode_error_recovered:
  assumes "image_open be bs = Inl (Exn msg)"
  shows "extract_expense_details_with sv be bs =
     Inr [(u ''employee'', None),
          (u ''description'', Some (u ''OCR processing failed: '' @ msg)),
          (u ''date'', Some (today be)),
          (u ''category'', Some (u ''Other'')),
          (u ''paid_by'', Some (u ''Cash'')),
          (u ''remark'', None),
          (u ''amount'', None)]"
  using assms
  by (simp add: extract_expense_details_with_def try_body_def empty_response_def u_def)

theorem decode_error_recovered_witness:
  "image_open undecodable_backend ''not an image'' = Inl (Exn (u ''cannot identify image file'')) \<and>
   extract_expense_details_with sample_service undecodable_backend ''not an image'' =
     Inr [(u ''employee'', None),
          (u ''description'', Some (u ''OCR processing failed: '' @ u ''cannot identify image file'')),
          (u ''date'', Some (today undecodable_backend)),
          (u ''category'', Some (u ''Other'')),
          (u ''paid_by'', Some (u ''Cash'')),
          (u ''remark'', None),
          (u ''amount'', None)]"
proof -
  have a: "image_open undecodable_backend ''not an image'' = Inl (Exn (u ''cannot identify image file''))"
    by (simp add: undecodable_backend_def stub_backend_def)
  show ?thesis using a decode_error_recovered [OF a] by simp
qed

text \<open>
  Claim C2, as stated, fails: no extractor call has a handler of its own.  When the
  employee extractor raises, the values of the other extractors are lost and the call
  returns the empty response.
\<close>

theorem extractor_failure_counterexample:
  "m_extract_employee failing_employee_service (u ''Pizza Palace Total: $45.67'') = Inl (Exn (u ''boom'')) \<and>
   m_extract_category failing_employee_service (u ''Pizza Palace Total: $45.67'') = Inr (u ''Food'') \<and>
   m_extract_amount failing_employee_service (u ''Pizza Palace Total: $45.67'') = Inr (Some (u ''45.67'')) \<and>
   extract_expense_details_with failing_employee_service receipt_backend ''img'' =
     Inr [(u ''employee'', None),
          (u ''description'', Some (u ''OCR processing failed: boom'')),
          (u ''date'', Some (u ''2026-11-04'')),
          (u ''category'', Some (u ''Other'')),
          (u ''paid_by'', Some (u ''Cash'')),
          (u ''remark'', None),
          (u ''amount'', None)]"
  by (simp add: failing_employee_service_def stub_service_def receipt_backend_def stub_backend_def
      extract_expense_details_with_def try_body_def extracted_data_def empty_response_def
      strip_def lstrip_def rstrip_def is_space_def u_def)

lemma extracted_data_raises:
  assumes "raised_in_order sv now t = e # es"
  shows "extracted_data sv now t = Inl e"
  using assms unfolding extracted_data_def raised_in_order_def
  by (cases "m_extract_employee sv t"; cases "m_extract_description sv t";
      cases "m_extract_date sv now t"; cases "m_extract_category sv t";
      cases "m_extract_payment_method sv t"; cases "m_extract_remark sv t";
      cases "m_extract_amount sv t") auto

lemma raised_in_order_nonempty:
  assumes "isl (m_extract_employee sv t) \<or> isl (m_extract_description sv t) \<or>
       isl (m_extract_date sv now t) \<or> isl (m_extract_category sv t) \<or>
       isl (m_extract_payment_method sv t) \<or> isl (m_extract_remark sv t) \<or>
       isl (m_extract_amount sv t)"
  shows "raised_in_order sv now t \<noteq> []"
  using assms unfolding raised_in_order_def
  by (cases "m_extract_employee sv t"; cases "m_extract_description sv t";
      cases "m_extract_date sv now t"; cases "m_extract_category sv t";
      cases "m_extract_payment_method sv t"; cases "m_extract_remark sv t";
      cases "m_extract_amount sv t") auto

text \<open>
  Claim C2, amended.  For every recognized text of stripped length at least 10, if any of
  the seven extractors raises, the exception of the first one that raises, in the order of
  the dictionary display, reaches the single handler of \<open>extract_expense_details\<close>: the
  whole call returns the canonical empty response whose description is
  \<open>OCR processing failed: \<close> followed by the message of that exception.  The values of
  the other extractors are lost.
\<close>

theorem extractor_failure_empties_result:
  assumes "image_open be bs = Inr img"
    and "image_to_string be (m_preprocess_image sv img) = Inr t"
    and "t \<noteq> []" and "10 \<le> length (strip t)"
    and "raised_in_order sv (today be) t = Exn msg # others"
  shows "extract_expense_details_with sv be bs =
     Inr [(u ''employee'', None),
          (u ''description'', Some (u ''OCR processing failed: '' @ msg)),
          (u ''date'', Some (today be)),
          (u ''category'', Some (u ''Other'')),
          (u ''paid_by'', Some (u ''Cash'')),
          (u ''remark'', None),
          (u ''amount'', None)]"
proof -
  have "extracted_data sv (today be) t = Inl (Exn msg)"
    using assms(5) by (rule extracted_data_raises)
  then have "try_body sv be bs = Inl (Exn msg)"
    using assms(1-4) by (simp add: try_body_def)
  then have "extract_expense_details_with sv be bs =
      Inr (empty_response (today be) (u ''OCR processing failed: '' @ msg))"
    by (simp add: extract_expense_details_with_def)
  then show ?thesis by (simp add: empty_response_def u_def)
qed

theorem extractor_failure_empties_result_witness:
  "image_open receipt_backend ''img'' = Inr () \<and>
   image_to_string receipt_backend (m_preprocess_image failing_date_amount_service ()) =
     Inr (u ''Pizza Palace Total: $45.67'') \<and>
   u ''Pizza Palace Total: $45.67'' \<noteq> [] \<and>
   10 \<le> length (strip (u ''Pizza Palace Total: $45.67'')) \<and>
   raised_in_order failing_date_amount_service (today receipt_backend) (u ''Pizza Palace Total: $45.67'') =
     [Exn (u ''bad date''), Exn (u ''bad amount'')] \<and>
   extract_expense_details_with failing_date_amount_service receipt_backend ''img'' =
     Inr [(u ''employee'', None),
          (u ''description'', Some (u ''OCR processing failed: '' @ u ''bad date'')),
          (u ''date'', Some (today receipt_backend)),
          (u ''category'', Some (u ''Other'')),
          (u ''paid_by'', Some (u ''Cash'')),
          (u ''remark'', None),
          (u ''amount'', None)]"
proof -
  let ?t = "u ''Pizza Palace Total: $45.67''"
  have a: "image_open receipt_backend ''img'' = Inr ()"
    by (simp add: receipt_backend_def stub_backend_def)
  have b: "image_to_string receipt_backend (m_preprocess_image failing_date_amount_service ()) = Inr ?t"
    by (simp add: receipt_backend_def stub_backend_def)
  have c: "?t \<noteq> []" by (simp add: u_def)
  have d: "10 \<le> length (strip ?t)"
    by (simp add: u_def strip_def lstrip_def rstrip_def is_space_def)
  have e: "raised_in_order failing_date_amount_service (today receipt_backend) ?t =
      Exn (u ''bad date'') # [Exn (u ''bad amount'')]"
    by (simp add: raised_in_order_def failing_date_amount_service_def stub_service_def)
  show ?thesis
    using a b c d e extractor_failure_empties_result [OF a b c d e] by simp
qed

subsection \<open>The category extractor\<close>

text \<open>
  Claim C7, as stated, fails: the Food row of the table comes before the Transportation
  row, so a text with \<open>uber\<close> and a Food keyword is classified as Food.
\<close>

theorem uber_category_counterexample:
  "contains (u ''uber'') (lower (u ''Uber Eats restaurant'')) \<and>
   extract_category (u ''Uber Eats restaurant'') = u ''Food''"
  by (simp add: extract_category_def extract_category_with_def categories_def food_keywords_def
      lower_def lower_cp_def u_def)

text \<open>
  Claim C7, amended.  For every text whose lower-cased form contains \<open>uber\<close>, the
  category extractor returns Food when the lower-cased form contains one of the fourteen
  Food keywords, and Transportation otherwise.  The statement holds for every function in
  the place of \<open>str.lower\<close>, so it does not depend on the case tables and is not
  restricted to plain texts.
\<close>

theorem uber_category:
  assumes "contains (u ''uber'') (to_lower text)"
  shows "extract_category_with to_lower text =
     (if list_ex (\<lambda>keyword. contains keyword (to_lower text)) food_keywords then u ''Food''
      else u ''Transportation'')"
proof -
  have "list_ex (\<lambda>keyword. contains keyword (to_lower text)) transportation_keywords"
    using assms by (simp add: transportation_keywords_def)
  then show ?thesis
    by (simp add: extract_category_with_def categories_def)
qed

theorem uber_category_witness:
  "contains (u ''uber'') (lower (u ''UBER trip 12.50'')) \<and>
   extract_category (u ''UBER trip 12.50'') = u ''Transportation'' \<and>
   contains (u ''uber'') (lower (u ''Uber Eats, Pizza'')) \<and>
   extract_category (u ''Uber Eats, Pizza'') = u ''Food''"
proof -
  let ?t = "u ''UBER trip 12.50''" and ?f = "u ''Uber Eats, Pizza''"
  have l: "lower ?t = u ''uber trip 12.50''" "lower ?f = u ''uber eats, pizza''"
    by (simp_all add: lower_def lower_cp_def u_def)
  have a: "contains (u ''uber'') (lower ?t)" unfolding l by (simp add: u_def)
  have b: "contains (u ''uber'') (lower ?f)" unfolding l by (simp add: u_def)
  have c: "\<not> list_ex (\<lambda>keyword. contains keyword (lower ?t)) food_keywords"
    unfolding l by (simp add: food_keywords_def u_def)
  have d: "list_ex (\<lambda>keyword. contains keyword (lower ?f)) food_keywords"
    unfolding l by (simp add: food_keywords_def u_def)
  show ?thesis
    using a b c d uber_category [of lower ?t, OF a] uber_category [of lower ?f, OF b]
    by (simp add: extract_category_def)
qed

subsection \<open>Evaluation of the float operations\<close>

lemma bit_length_0: "bit_length 0 = 0"
  by (simp add: bit_length.simps)

lemma bit_length_pos: "0 < n \<Longrightarrow> bit_length n = Suc (bit_length (n div 2))"
  by (subst bit_length.simps) simp

lemmas float_eval = py_float_def fl_div_def ilog2_def round_half_even_def digits_value_def
  float_key_def bit_length_0 bit_length_pos is_digit_def infinity_def Let_def

lemmas regex_eval = search_def findall_def lit_def seqs_def u_def is_digit_def is_space_def
  is_word_def at_boundary_def lower_cp_def upper_cp_def

lemmas amount_eval = currency_def number_group_def labelled_def amount_patterns_def
  money_token_def remove_commas_def extract_amount_def

subsection \<open>The amount extractor\<close>

text \<open>
  Claim C3.  The patterns of the loop return a value only when it parses to a float
  strictly between 0 and 1000000; the fallback returns the greatest two-decimal token
  with no range check.  On a text whose only number is \<open>0.00\<close> the extractor returns
  \<open>0.00\<close>, which parses to 0, and on one whose only number is \<open>2500000.00\<close> it returns
  that, which is above the bound.
\<close>

theorem fallback_amount_out_of_range:
  "extract_amount (u ''Free sample 0.00 given'') = Some (u ''0.00'') \<and>
   py_float (u ''0.00'') = Some (0, 0) \<and> \<not> fless (0, 0) (0, 0) \<and>
   extract_amount (u ''Invoice 2500000.00 due'') = Some (u ''2500000.00'') \<and>
   (\<exists>v. py_float (u ''2500000.00'') = Some v \<and> \<not> fless v (1000000, 0))"
  by (simp add: regex_eval amount_eval float_eval)

text \<open>
  Claim C6, as stated, fails: the search takes the leftmost \<open>total\<close> and the group is
  greedy, so a text that contains \<open>Total: $45.67\<close> gives another amount when a digit
  follows it, or when an earlier \<open>total\<close> has a number.
\<close>

theorem total_45_67_counterexample:
  "contains (u ''Total: $45.67'') (u ''Total: $45.678'') \<and>
   extract_amount (u ''Total: $45.678'') = Some (u ''45.678'') \<and>
   contains (u ''Total: $45.67'') (u ''Subtotal: 40.00 Total: $45.67'') \<and>
   extract_amount (u ''Subtotal: 40.00 Total: $45.67'') = Some (u ''40.00'')"
  by (simp add: regex_eval amount_eval float_eval)

text \<open>
  Claim C10, as stated, fails.  Each pattern is one \<open>re.search\<close>, which looks at the
  leftmost match only.  In the first text the leftmost \<open>total\<close> match is \<open>Total: 0\<close>,
  out of range, so the loop goes on to the \<open>amount\<close> pattern and the valid total behind
  it is never looked at; in the second the leftmost \<open>total\<close> match is inside
  \<open>Subtotal\<close>.  Both texts have a valid amount-labelled value and a valid total-labelled
  value later in the text, and the total-labelled value is not returned.
\<close>

theorem later_total_counterexample:
  "contains (u ''Amount: 10.00'') (u ''Amount: 10.00 paid, Total: 0, Total: 20.00'') \<and>
   contains (u ''Total: 20.00'') (u ''Amount: 10.00 paid, Total: 0, Total: 20.00'') \<and>
   extract_amount (u ''Amount: 10.00 paid, Total: 0, Total: 20.00'') = Some (u ''10.00'') \<and>
   contains (u ''Amount: 10.00'') (u ''Amount: 10.00 Subtotal: 5.00 Total: 20.00'') \<and>
   contains (u ''Total: 20.00'') (u ''Amount: 10.00 Subtotal: 5.00 Total: 20.00'') \<and>
   extract_amount (u ''Amount: 10.00 Subtotal: 5.00 Total: 20.00'') = Some (u ''5.00'')"
  by (simp add: regex_eval amount_eval float_eval)

lemma try_patterns_first_valid:
  "try_patterns patterns text =
     (case List.map_filter (\<lambda>pattern. valid_amount (search True pattern text)) patterns of
        [] \<Rightarrow> None
      | a # _ \<Rightarrow> Some a)"
  by (induction patterns)
    (auto simp add: List.map_filter_simps valid_amount_def Let_def split: option.splits)

text \<open>
  Claim C10, amended.  For every plain text, the extractor returns the number of the
  first pattern, in the order total, amount, grand total, balance, bare currency symbol,
  whose leftmost match in the whole text carries a number that parses to a float strictly
  between 0 and 1000000; a pattern whose leftmost match has no such number is passed
  over, and its later matches are not looked at.  When no pattern has one, the result is
  the greatest two-decimal token, if any.  So the number of the leftmost match of the
  \<open>total\<close> pattern, when it is in range, is returned whatever amount-labelled value
  the text has, also on its left; when it is not in range, or the pattern has no match,
  the leftmost match of the \<open>amount\<close> pattern decides next.
\<close>

theorem amount_patterns_in_order:
  assumes "plain_text text"
  shows "extract_amount text =
     (case List.map_filter (\<lambda>pattern. valid_amount (search True pattern text))
        [labelled (lit ''total''),
         labelled (lit ''amount''),
         labelled (seqs [lit ''grand'', Rep Space 0 None, lit ''total'']),
         labelled (lit ''balance''),
         seqs [One currency, Rep Space 0 None, number_group]] of
        a # _ \<Rightarrow> Some a
      | [] \<Rightarrow>
          (case findall False money_token text of
             [] \<Rightarrow> None
           | a # amounts \<Rightarrow> Some (max_by float_key a amounts)))"
  unfolding extract_amount_def try_patterns_first_valid amount_patterns_def
  by (simp split: list.splits)

theorem amount_patterns_in_order_witness:
  "plain_text (u ''Amount: 10.00 paid, Total: 0, Total: 20.00'') \<and>
   valid_amount (search True (labelled (lit ''total''))
     (u ''Amount: 10.00 paid, Total: 0, Total: 20.00'')) = None \<and>
   valid_amount (search True (labelled (lit ''amount''))
     (u ''Amount: 10.00 paid, Total: 0, Total: 20.00'')) = Some (u ''10.00'') \<and>
   extract_amount (u ''Amount: 10.00 paid, Total: 0, Total: 20.00'') = Some (u ''10.00'') \<and>
   plain_text (u ''Amount: 10.00 paid, Total: 20.00'') \<and>
   valid_amount (search True (labelled (lit ''total''))
     (u ''Amount: 10.00 paid, Total: 20.00'')) = Some (u ''20.00'') \<and>
   extract_amount (u ''Amount: 10.00 paid, Total: 20.00'') = Some (u ''20.00'')"
proof -
  let ?s = "u ''Amount: 10.00 paid, Total: 0, Total: 20.00''"
  let ?t = "u ''Amount: 10.00 paid, Total: 20.00''"
  have a: "plain_text ?s" by (simp add: plain_text_def u_def)
  have b: "plain_text ?t" by (simp add: plain_text_def u_def)
  have c: "valid_amount (search True (labelled (lit ''total'')) ?s) = None"
    by (simp add: valid_amount_def regex_eval amount_eval float_eval)
  have d: "valid_amount (search True (labelled (lit ''amount'')) ?s) = Some (u ''10.00'')"
    by (simp add: valid_amount_def regex_eval amount_eval float_eval)
  have e: "valid_amount (search True (labelled (lit ''total'')) ?t) = Some (u ''20.00'')"
    by (simp add: valid_amount_def regex_eval amount_eval float_eval)
  show ?thesis
    using a b c d e amount_patterns_in_order [OF a] amount_patterns_in_order [OF b]
    by (simp add: List.map_filter_simps)
qed

subsection \<open>A total line in a text\<close>

text \<open>
  Helper facts: what the characters of the patterns match under \<open>re.IGNORECASE\<close>, and
  the evaluation of the character classes on literal code points.
\<close>

lemma letter_match:
  "97 \<le> x \<Longrightarrow> x \<le> 122 \<Longrightarrow> item_match True (Chars [x]) c \<longleftrightarrow> lower_cp c = x"
  by (auto simp: lower_cp_def upper_cp_def)

lemmas cp_eval = lower_cp_def [of "numeral n"] upper_cp_def [of "numeral n"]
  is_digit_def [of "numeral n"] is_space_def [of "numeral n"] is_word_def [of "numeral n"] for n

lemma total_here_nil:
  "search_from True (labelled (lit ''total'')) p (u ''Total: $45.67'') = Some (u ''Total: $45.67'', Some (u ''45.67''))"
  by (simp add: regex_eval amount_eval)

lemma total_here_cons:
  assumes "\<not> is_digit c" "c \<noteq> 46"
  shows "search_from True (labelled (lit ''total'')) p (u ''Total: $45.67'' @ c # post) =
     Some (u ''Total: $45.67'', Some (u ''45.67''))"
proof -
  have d: "lower_cp c \<noteq> 46" "upper_cp c \<noteq> 46"
    using assms by (auto simp: lower_cp_def upper_cp_def)
  show ?thesis
    using assms d by (simp add: search_def lit_def seqs_def u_def cp_eval amount_eval)
qed

lemma lit_total_prefix:
  "matches True (lit ''total'') (p, s, g) \<noteq> [] \<Longrightarrow> take 5 (lower s) = u ''total''"
  by (auto simp: lit_def u_def lower_def letter_match simp del: item_match.simps
      split: list.splits if_splits)

lemma labelled_total_none:
  assumes "take 5 (lower s) \<noteq> u ''total''"
  shows "matches True (labelled (lit ''total'')) (p, s, g) = []"
proof -
  have "matches True (lit ''total'') (p, s, g) = []"
    using assms lit_total_prefix by blast
  thus ?thesis by (simp add: labelled_def seqs_def)
qed

lemma no_overlap:
  assumes "take 5 (lower (c # pre)) \<noteq> u ''total''"
  shows "take 5 (lower (c # pre @ u ''Total: $45.67'' @ post)) \<noteq> u ''total''"
proof (cases "4 \<le> length pre")
  case True
  thus ?thesis using assms by (simp add: lower_def)
next
  case False
  then consider "pre = []" | a where "pre = [a]" | a b where "pre = [a, b]"
    | a b d where "pre = [a, b, d]"
    by (cases pre; cases "tl pre"; cases "tl (tl pre)"; cases "tl (tl (tl pre))") auto
  thus ?thesis
    by cases (simp_all add: lower_def u_def cp_eval)
qed

lemma total_found:
  assumes "\<not> contains (u ''total'') (lower pre)"
    and "post = [] \<or> (\<not> is_digit (hd post) \<and> hd post \<noteq> 46)"
  shows "search_from True (labelled (lit ''total'')) p (pre @ u ''Total: $45.67'' @ post) =
     Some (u ''Total: $45.67'', Some (u ''45.67''))"
  using assms(1)
proof (induction pre arbitrary: p)
  case Nil
  show ?case
  proof (cases post)
    case Nil
    thus ?thesis using total_here_nil by simp
  next
    case (Cons c post')
    thus ?thesis using assms(2) total_here_cons [of c p post'] by simp
  qed
next
  case (Cons c pre)
  have a: "take 5 (lower (c # pre)) \<noteq> u ''total''" and b: "\<not> contains (u ''total'') (lower pre)"
  proof -
    have len: "length (u ''total'') = 5" by (simp add: u_def)
    have low: "lower (c # pre) = lower_cp c # lower pre" by (simp add: lower_def)
    show "take 5 (lower (c # pre)) \<noteq> u ''total''" "\<not> contains (u ''total'') (lower pre)"
      using Cons.prems unfolding low by (simp_all add: len)
  qed
  have "matches True (labelled (lit ''total'')) (p, c # pre @ u ''Total: $45.67'' @ post, None) = []"
    using no_overlap [OF a] by (rule labelled_total_none)
  thus ?case using Cons.IH [OF b] by simp
qed

text \<open>
  Claim C6, amended.  Let a plain text contain \<open>Total: $45.67\<close> such that the word
  \<open>total\<close>, in any letter case, does not occur before it, and such that the text ends
  after it or goes on with a character that is neither a digit nor a dot.  Then the
  search for the \<open>total\<close> pattern finds this line first, the number group stops after
  \<open>45.67\<close>, the value is in range, and the extractor returns \<open>45.67\<close>.
\<close>

theorem total_45_67:
  assumes "plain_text (pre @ post)"
    and "\<not> contains (u ''total'') (lower pre)"
    and "post = [] \<or> (\<not> is_digit (hd post) \<and> hd post \<noteq> 46)"
  shows "extract_amount (pre @ u ''Total: $45.67'' @ post) = Some (u ''45.67'')"
proof -
  have a: "search True (labelled (lit ''total'')) (pre @ u ''Total: $45.67'' @ post) =
      Some (u ''Total: $45.67'', Some (u ''45.67''))"
    unfolding search_def using assms(2,3) by (rule total_found)
  have b: "remove_commas (u ''45.67'') = u ''45.67''"
    by (simp add: remove_commas_def u_def)
  have c: "py_float (u ''45.67'') = Some (fl_div 4567 100)"
    by (simp add: py_float_def is_digit_def digits_value_def u_def)
  have d: "fless (0, 0) (fl_div 4567 100)" "fless (fl_div 4567 100) (1000000, 0)"
    by (simp_all add: float_eval)
  show ?thesis
    using a b c d by (simp add: extract_amount_def amount_patterns_def)
qed

theorem total_45_67_witness:
  "plain_text (u ''Pizza Palace '' @ u '' thanks'') \<and>
   \<not> contains (u ''total'') (lower (u ''Pizza Palace '')) \<and>
   (u '' thanks'' = [] \<or> (\<not> is_digit (hd (u '' thanks'')) \<and> hd (u '' thanks'') \<noteq> 46)) \<and>
   extract_amount (u ''Pizza Palace '' @ u ''Total: $45.67'' @ u '' thanks'') = Some (u ''45.67'')"
proof -
  have a: "plain_text (u ''Pizza Palace '' @ u '' thanks'')"
    by (simp add: plain_text_def u_def)
  have b: "\<not> contains (u ''total'') (lower (u ''Pizza Palace ''))"
    by (simp add: lower_def lower_cp_def u_def)
  have c: "u '' thanks'' = [] \<or> (\<not> is_digit (hd (u '' thanks'')) \<and> hd (u '' thanks'') \<noteq> 46)"
    by (simp add: u_def is_digit_def)
  show ?thesis using a b c total_45_67 [OF a b c] by simp
qed

subsection \<open>The date extractor\<close>

lemmas date_eval = date_patterns_def date_formats_def strptime_def month_names_def month_abbrs_def
  is_leap_def days_in_month_def pad2_def extract_date_def digits_value_def lower_def

text \<open>
  Claim C5, as stated, fails: the loop over the patterns does not stop at the first
  date-shaped substring.  In \<open>2024-03-15\<close> the first pattern matches \<open>24-03-15\<close>, which
  parses under none of the seven formats; the second pattern then matches the whole date,
  which parses under \<open>%Y-%m-%d\<close>, and that date is returned, not the current date.
  In the second text the first pattern matches \<open>01-02-03\<close>, whose year has two digits,
  and the date comes from the match of the third pattern.
\<close>

theorem first_match_only_counterexample:
  "search True (hd date_patterns) (u ''2024-03-15'') = Some (u ''24-03-15'', Some (u ''24-03-15'')) \<and>
   try_formats date_formats (u ''24-03-15'') = None \<and>
   extract_date (u ''2026-11-04'') (u ''2024-03-15'') = Some (u ''2024-03-15'') \<and>
   search True (hd date_patterns) (u ''Ref 01-02-03, 5 May 2024'') =
     Some (u ''01-02-03'', Some (u ''01-02-03'')) \<and>
   try_formats date_formats (u ''01-02-03'') = None \<and>
   extract_date (u ''2026-11-04'') (u ''Ref 01-02-03, 5 May 2024'') = Some (u ''2024-05-05'')"
  by (simp add: regex_eval date_eval)

lemma try_formats_first_parse:
  "try_formats formats date_str =
     (case List.map_filter (strptime date_str) formats of
        [] \<Rightarrow> None
      | parsed_date # _ \<Rightarrow> Some (strftime parsed_date))"
  by (induction formats) (auto simp add: List.map_filter_simps split: option.splits)

lemma try_date_patterns_first_candidate:
  "try_date_patterns patterns text =
     (case List.map_filter first_parse
        (List.map_filter (\<lambda>pattern. map_option fst (search True pattern text)) patterns) of
        [] \<Rightarrow> None
      | r # _ \<Rightarrow> Some r)"
  by (induction patterns)
    (auto simp add: List.map_filter_simps first_parse_def try_formats_first_parse
      split: option.splits list.splits)

text \<open>
  Claim C5, amended.  For every plain text, the date extractor takes the three patterns
  in order; the leftmost match of a pattern is parsed under the seven formats in order,
  and the first format that parses gives the result, written \<open>YYYY-MM-DD\<close>; when the
  match of a pattern parses under no format, the extractor goes on to the next pattern;
  it returns the current date only when no pattern has a match that parses.  It never
  returns absent.
\<close>

theorem extract_date_first_parsed_candidate:
  assumes "plain_text text"
  shows "extract_date now text = Some (first_parsed_candidate now text)"
  by (simp add: extract_date_def first_parsed_candidate_def date_candidates_def
      try_date_patterns_first_candidate split: list.splits)

theorem extract_date_first_parsed_candidate_witness:
  "plain_text (u ''Paid 15-03-24, due 16 March 2024'') \<and>
   date_candidates (u ''Paid 15-03-24, due 16 March 2024'') = [u ''15-03-24'', u ''16 March 2024''] \<and>
   first_parse (u ''15-03-24'') = None \<and>
   first_parse (u ''16 March 2024'') = Some (u ''2024-03-16'') \<and>
   extract_date (u ''2026-11-04'') (u ''Paid 15-03-24, due 16 March 2024'') = Some (u ''2024-03-16'')"
proof -
  let ?t = "u ''Paid 15-03-24, due 16 March 2024''"
  have a: "plain_text ?t" by (simp add: plain_text_def u_def)
  have b: "date_candidates ?t = [u ''15-03-24'', u ''16 March 2024'']"
    by (simp add: date_candidates_def List.map_filter_simps regex_eval date_eval)
  have c: "first_parse (u ''15-03-24'') = None"
    by (simp add: first_parse_def List.map_filter_simps regex_eval date_eval)
  have d: "first_parse (u ''16 March 2024'') = Some (u ''2024-03-16'')"
    by (simp add: first_parse_def List.map_filter_simps regex_eval date_eval)
  show ?thesis
    using a b c d extract_date_first_parsed_candidate [OF a, of "u ''2026-11-04''"]
    by (simp add: first_parsed_candidate_def List.map_filter_simps)
qed

subsection \<open>The image normalizer\<close>




















end
